theory Spec2Isabelle
  imports Complex_Main
begin

section \<open>JavaScript values\<close>

text \<open>
  The service worker (\<^verbatim>\<open>background/service_worker.js\<close>) handles plain data: what
  \<^verbatim>\<open>chrome.storage.local\<close> returns, the error handed to \<^verbatim>\<open>onError\<close>, the
  message handed to the \<^verbatim>\<open>onMessage\<close> listener. Such a value is \<^verbatim>\<open>undefined\<close>,
  \<^verbatim>\<open>null\<close>, a boolean, a number, a string, an array or an object with data
  properties. A number is a finite value, \<^verbatim>\<open>NaN\<close> or one of the infinities; a
  finite double is abstracted to the rational it denotes (rounding is not modelled,
  and \<^verbatim>\<open>-0\<close> is \<open>Finite 0\<close>). A string is a list of ASCII characters.
\<close>

datatype jsnum = Finite rat | NaN | PosInfinity | NegInfinity

datatype jsval =
    Undefined
  | Null
  | Bool bool
  | Num jsnum
  | Str string
  | Arr "jsval list"
  | Obj "(string \<times> jsval) list"

text \<open>The exceptions the modelled code can raise by itself; the text is V8's message.\<close>

datatype js_error = TypeError string

text \<open>The value a \<^verbatim>\<open>catch (e)\<close> clause binds when a \<open>js_error\<close> was thrown.\<close>

fun error_object :: "js_error \<Rightarrow> jsval" where
  "error_object (TypeError msg) = Obj [(''name'', Str ''TypeError''), (''message'', Str msg)]"

text \<open>\<^verbatim>\<open>typeof v\<close>\<close>

fun typeof :: "jsval \<Rightarrow> string" where
  "typeof Undefined = ''undefined''"
| "typeof Null = ''object''"
| "typeof (Bool b) = ''boolean''"
| "typeof (Num n) = ''number''"
| "typeof (Str s) = ''string''"
| "typeof (Arr xs) = ''object''"
| "typeof (Obj kvs) = ''object''"

text \<open>\<^verbatim>\<open>ToBoolean\<close>: what \<^verbatim>\<open>!v\<close>, \<^verbatim>\<open>v && w\<close>, \<^verbatim>\<open>v || w\<close> and \<^verbatim>\<open>v ? a : b\<close> test.\<close>

fun truthyNum :: "jsnum \<Rightarrow> bool" where
  "truthyNum (Finite r) = (r \<noteq> 0)"
| "truthyNum NaN = False"
| "truthyNum PosInfinity = True"
| "truthyNum NegInfinity = True"

fun truthy :: "jsval \<Rightarrow> bool" where
  "truthy Undefined = False"
| "truthy Null = False"
| "truthy (Bool b) = b"
| "truthy (Num n) = truthyNum n"
| "truthy (Str s) = (s \<noteq> [])"
| "truthy (Arr xs) = True"
| "truthy (Obj kvs) = True"

text \<open>\<^verbatim>\<open>Number.isFinite(v)\<close>: true for a finite number only, with no coercion.\<close>

fun Number_isFinite :: "jsval \<Rightarrow> bool" where
  "Number_isFinite (Num (Finite r)) = True"
| "Number_isFinite v = False"

text \<open>\<^verbatim>\<open>Array.isArray(v)\<close>\<close>

fun Array_isArray :: "jsval \<Rightarrow> bool" where
  "Array_isArray (Arr xs) = True"
| "Array_isArray v = False"

text \<open>
  \<^verbatim>\<open>v?.k\<close>: \<^verbatim>\<open>undefined\<close> when \<open>v\<close> is \<^verbatim>\<open>undefined\<close> or \<^verbatim>\<open>null\<close>, the
  property otherwise. The property names the program reads (\<^verbatim>\<open>message\<close>,
  \<^verbatim>\<open>name\<close>, \<^verbatim>\<open>results\<close>, \<^verbatim>\<open>download\<close>, \<^verbatim>\<open>type\<close>) are no property of a
  boolean, a number, a string or an array, nor of \<^verbatim>\<open>Object.prototype\<close>, so only an
  object's own data property yields a value.
\<close>

fun optProp :: "jsval \<Rightarrow> string \<Rightarrow> jsval" where
  "optProp (Obj kvs) k = (case map_of kvs k of Some v \<Rightarrow> v | None \<Rightarrow> Undefined)"
| "optProp v k = Undefined"

text \<open>\<^verbatim>\<open>v.k\<close>: a \<^verbatim>\<open>TypeError\<close> when \<open>v\<close> is \<^verbatim>\<open>undefined\<close> or \<^verbatim>\<open>null\<close>.\<close>

definition getProp :: "jsval \<Rightarrow> string \<Rightarrow> js_error + jsval" where
  "getProp v k =
     (if v = Undefined \<or> v = Null
      then Inl (TypeError (''Cannot read properties of '' @ (if v = Null then ''null'' else ''undefined'')
                            @ '' (reading '' @ k @ '')''))
      else Inr (optProp v k))"

text \<open>\<^verbatim>\<open>v ?? d\<close>\<close>

definition nullish :: "jsval \<Rightarrow> jsval \<Rightarrow> jsval" where
  "nullish v d = (if v = Undefined \<or> v = Null then d else v)"

subsection \<open>Strings\<close>

text \<open>\<^verbatim>\<open>s.toLowerCase()\<close> on ASCII: the letters A to Z move to a to z.\<close>

definition lowerChar :: "char \<Rightarrow> char" where
  "lowerChar c =
     (case map_of (zip ''ABCDEFGHIJKLMNOPQRSTUVWXYZ'' ''abcdefghijklmnopqrstuvwxyz'') c of
        Some l \<Rightarrow> l
      | None \<Rightarrow> c)"

definition toLowerCase :: "string \<Rightarrow> string" where
  "toLowerCase s = map lowerChar s"

text \<open>\<^verbatim>\<open>s.includes(p)\<close>: \<open>p\<close> occurs in \<open>s\<close> as a contiguous run.\<close>

fun str_includes :: "string \<Rightarrow> string \<Rightarrow> bool" where
  "str_includes [] p = (p = [])"
| "str_includes (c # cs) p = (take (length p) (c # cs) = p \<or> str_includes cs p)"

section \<open>The error classifier\<close>

text \<open>
  \<^verbatim>\<open>error?.k?.toLowerCase() || ''\<close>, given the value \<open>v\<close> of \<^verbatim>\<open>error?.k\<close>. The
  second \<^verbatim>\<open>?.\<close> ends the chain on \<^verbatim>\<open>undefined\<close> and \<^verbatim>\<open>null\<close> only: any other
  value that is no string has no \<^verbatim>\<open>toLowerCase\<close> method, and calling it raises.
\<close>

fun lowerField :: "string \<Rightarrow> jsval \<Rightarrow> js_error + string" where
  "lowerField k Undefined = Inr ''''"
| "lowerField k Null = Inr ''''"
| "lowerField k (Str s) = Inr (toLowerCase s)"
| "lowerField k v = Inl (TypeError (''error?.'' @ k @ ''?.toLowerCase is not a function''))"

record errorInfo =
  type :: string
  userMessage :: string

text \<open>\<^verbatim>\<open>categorizeError(error)\<close>; \<open>onLine\<close> is \<^verbatim>\<open>navigator.onLine\<close>.\<close>

definition categorizeError :: "bool \<Rightarrow> jsval \<Rightarrow> js_error + errorInfo" where
  "categorizeError onLine error =
     (case lowerField ''message'' (optProp error ''message'') of
        Inl e \<Rightarrow> Inl e
      | Inr message \<Rightarrow>
     (case lowerField ''name'' (optProp error ''name'') of
        Inl e \<Rightarrow> Inl e
      | Inr name \<Rightarrow>
          Inr (if str_includes message ''network'' \<or>
                  str_includes message ''fetch'' \<or>
                  str_includes message ''timeout'' \<or>
                  str_includes message ''connection'' \<or>
                  name = ''networkerror'' \<or>
                  \<not> onLine
               then \<lparr>type = ''network'',
                     userMessage = ''Network connection issue. Please check your internet connection.''\<rparr>
               else if str_includes message ''429'' \<or>
                       str_includes message ''rate limit'' \<or>
                       str_includes message ''too many requests''
               then \<lparr>type = ''rate-limit'',
                     userMessage = ''Too many requests. Please wait a moment and try again.''\<rparr>
               else if str_includes message ''cors'' \<or>
                       str_includes message ''blocked'' \<or>
                       str_includes message ''security''
               then \<lparr>type = ''security'',
                     userMessage = ''Connection blocked. Please check your browser settings.''\<rparr>
               else \<lparr>type = ''unknown'', userMessage = ''Test failed. Please try again.''\<rparr>)))"

section \<open>The speed test wrapper\<close>

text \<open>
  \<^verbatim>\<open>results.getSummary()\<close> of the measurement engine: each field is a number or
  absent (\<open>None\<close>).
\<close>

record summary =
  summary_download :: "jsnum option"
  summary_upload :: "jsnum option"
  summary_latency :: "jsnum option"
  summary_jitter :: "jsnum option"
  summary_downLoadedLatency :: "jsnum option"
  summary_upLoadedLatency :: "jsnum option"

text \<open>The object \<^verbatim>\<open>onFinish\<close> builds and hands to \<^verbatim>\<open>onComplete\<close>.\<close>

record finalResults =
  download :: jsval
  upload :: jsval
  latency :: jsval
  jitter :: jsval
  downLoadedLatency :: jsval
  upLoadedLatency :: jsval
  timestamp :: nat

text \<open>\<^verbatim>\<open>n / d\<close> for a finite \<open>d > 0\<close>.\<close>

fun divNum :: "jsnum \<Rightarrow> rat \<Rightarrow> jsnum" where
  "divNum (Finite r) d = Finite (r / d)"
| "divNum NaN d = NaN"
| "divNum PosInfinity d = PosInfinity"
| "divNum NegInfinity d = NegInfinity"

text \<open>\<^verbatim>\<open>x ? x / 1e6 : null\<close>\<close>

fun toMbps :: "jsnum option \<Rightarrow> jsval" where
  "toMbps None = Null"
| "toMbps (Some n) = (if truthyNum n then Num (divNum n 1000000) else Null)"

text \<open>\<^verbatim>\<open>x || null\<close>\<close>

fun orNull :: "jsnum option \<Rightarrow> jsval" where
  "orNull None = Null"
| "orNull (Some n) = (if truthyNum n then Num n else Null)"

text \<open>The \<^verbatim>\<open>finalResults\<close> of \<^verbatim>\<open>engine.onFinish\<close>; \<open>now\<close> is \<^verbatim>\<open>Date.now()\<close>.\<close>

definition onFinish_finalResults :: "summary \<Rightarrow> nat \<Rightarrow> finalResults" where
  "onFinish_finalResults summary now =
     \<lparr>download = toMbps (summary_download summary),
      upload = toMbps (summary_upload summary),
      latency = orNull (summary_latency summary),
      jitter = orNull (summary_jitter summary),
      downLoadedLatency = orNull (summary_downLoadedLatency summary),
      upLoadedLatency = orNull (summary_upLoadedLatency summary),
      timestamp = now\<rparr>"

section \<open>The orchestrator\<close>

text \<open>
  What \<^verbatim>\<open>chrome.runtime.sendMessage\<close> sends. The status text
  \<^verbatim>\<open>Retrying in ${Math.ceil(delay / 1000)}s...\<close> is \<open>RetryingIn\<close> of the seconds;
  a \<^verbatim>\<open>FAST_SPEED_DONE\<close> with \<^verbatim>\<open>ok: true\<close> carries download, upload, latency and
  jitter (the units are always Mbps), one with \<^verbatim>\<open>ok: false\<close> the reason and the user
  message. The progress messages of \<^verbatim>\<open>onProgress\<close> are not modelled.
\<close>

datatype status = Starting | RetryingIn nat

datatype donePayload = Ok jsval jsval jsval jsval | Failed string string

datatype message = FAST_SPEED_STATUS status | FAST_SPEED_DONE donePayload

text \<open>
  \<^verbatim>\<open>STATE\<close>, and with it what the service worker did to its environment: the
  messages sent (oldest first), the delays of the pending \<^verbatim>\<open>setTimeout\<close> callbacks
  (each calls \<^verbatim>\<open>startCloudflareSpeedTest\<close>), the number of calls of
  \<^verbatim>\<open>speedTest.start()\<close>, and the value under the key \<^verbatim>\<open>results\<close> of
  \<^verbatim>\<open>chrome.storage.local\<close> (\<open>None\<close> when the key is absent). \<open>currentTest\<close> holds
  the number of the wrapper instance.
\<close>

record state =
  testRunning :: bool
  lastResult :: jsval
  currentTest :: "nat option"
  retryCount :: nat
  maxRetries :: nat
  backoffDelay :: nat
  sent :: "message list"
  timers :: "nat list"
  engineStarts :: nat
  storedResults :: "jsval option"

definition STATE :: state where
  "STATE = \<lparr>testRunning = False, lastResult = Null, currentTest = None, retryCount = 0,
            maxRetries = 3, backoffDelay = 1000, sent = [], timers = [], engineStarts = 0,
            storedResults = None\<rparr>"

subsection \<open>Persisting a result\<close>

text \<open>The callback of \<^verbatim>\<open>data.results.filter\<close>.\<close>

definition keepItem :: "jsval \<Rightarrow> js_error + bool" where
  "keepItem item =
     (if \<not> truthy item then Inr False
      else if typeof item \<noteq> ''object'' then Inr False
      else (case getProp item ''download'' of
              Inl e \<Rightarrow> Inl e
            | Inr d \<Rightarrow> Inr (typeof d = ''number'' \<and> Number_isFinite d)))"

fun filterItems :: "jsval list \<Rightarrow> js_error + jsval list" where
  "filterItems [] = Inr []"
| "filterItems (item # items) =
     (case keepItem item of
        Inl e \<Rightarrow> Inl e
      | Inr keep \<Rightarrow>
          (case filterItems items of
             Inl e \<Rightarrow> Inl e
           | Inr kept \<Rightarrow> Inr (if keep then item # kept else kept)))"

text \<open>
  The body of the \<^verbatim>\<open>try\<close> block, on the value \<open>raw\<close> of \<^verbatim>\<open>data?.results\<close>:
  \<open>prev\<close> stays \<open>[]\<close> unless \<open>raw\<close> is an array.
\<close>

fun filterResults :: "jsval \<Rightarrow> js_error + jsval list" where
  "filterResults (Arr items) = filterItems items"
| "filterResults raw = Inr []"

text \<open>The \<^verbatim>\<open>try\<close> with its \<^verbatim>\<open>catch\<close>, which resets \<open>prev\<close> to \<open>[]\<close>.\<close>

definition validPrev :: "jsval \<Rightarrow> jsval list" where
  "validPrev raw = (case filterResults raw of Inl e \<Rightarrow> [] | Inr prev \<Rightarrow> prev)"

text \<open>The \<open>data\<close> that \<^verbatim>\<open>chrome.storage.local.get(['results'], ...)\<close> hands to its callback.\<close>

definition storageData :: "jsval option \<Rightarrow> jsval" where
  "storageData stored = Obj (case stored of None \<Rightarrow> [] | Some v \<Rightarrow> [(''results'', v)])"

text \<open>The entry \<^verbatim>\<open>persistResult\<close> builds.\<close>

definition mkEntry :: "nat \<Rightarrow> finalResults \<Rightarrow> jsval" where
  "mkEntry now result =
     Obj [(''ts'', Num (Finite (of_nat now))),
          (''download'', download result),
          (''upload'', nullish (upload result) Null),
          (''latency'', nullish (latency result) Null),
          (''jitter'', nullish (jitter result) Null),
          (''units'', Str ''Mbps'')]"

text \<open>
  \<^verbatim>\<open>persistResult(result)\<close>, with the storage callbacks run in one step. \<open>readError\<close>
  and \<open>writeError\<close> say whether \<^verbatim>\<open>chrome.runtime.lastError\<close> is set in the callback
  of \<^verbatim>\<open>get\<close> and of \<^verbatim>\<open>set\<close>; a failed \<^verbatim>\<open>set\<close> stores nothing.
\<close>

definition persistResult :: "nat \<Rightarrow> bool \<Rightarrow> bool \<Rightarrow> finalResults \<Rightarrow> state \<Rightarrow> state" where
  "persistResult now readError writeError result s =
     (if typeof (download result) \<noteq> ''number'' \<or> \<not> Number_isFinite (download result) then s
      else let entry = mkEntry now result in
        if readError then s
        else let prev = validPrev (optProp (storageData (storedResults s)) ''results'');
                 next = take 2 (entry # prev)
             in if writeError then s else s\<lparr>storedResults := Some (Arr next)\<rparr>)"

subsection \<open>The callbacks of a run\<close>

text \<open>\<^verbatim>\<open>onComplete(result)\<close>; \<open>now\<close> and \<open>now'\<close> are its two readings of \<^verbatim>\<open>Date.now()\<close>.\<close>

definition onComplete :: "nat \<Rightarrow> nat \<Rightarrow> bool \<Rightarrow> bool \<Rightarrow> finalResults \<Rightarrow> state \<Rightarrow> state" where
  "onComplete now now' readError writeError result s =
     (let s1 = s\<lparr>testRunning := False, currentTest := None, retryCount := 0,
                 lastResult := Obj [(''download'', nullish (download result) Null),
                                    (''upload'', nullish (upload result) Null),
                                    (''latency'', nullish (latency result) Null),
                                    (''jitter'', nullish (jitter result) Null),
                                    (''units'', Str ''Mbps''),
                                    (''ts'', Num (Finite (of_nat now)))]\<rparr>;
          s2 = s1\<lparr>sent := sent s1 @
                   [FAST_SPEED_DONE (Ok (nullish (download result) Null)
                                        (nullish (upload result) Null)
                                        (nullish (latency result) Null)
                                        (nullish (jitter result) Null))]\<rparr>
      in persistResult now' readError writeError result s2)"

text \<open>
  \<^verbatim>\<open>engine.onFinish\<close> of the wrapper: it builds the final results and calls
  \<^verbatim>\<open>onComplete\<close>.
\<close>

definition onFinish :: "summary \<Rightarrow> nat \<Rightarrow> nat \<Rightarrow> nat \<Rightarrow> bool \<Rightarrow> bool \<Rightarrow> state \<Rightarrow> state" where
  "onFinish summary now0 now now' readError writeError s =
     onComplete now now' readError writeError (onFinish_finalResults summary now0) s"

text \<open>
  \<^verbatim>\<open>onError(error)\<close>. A thrown exception leaves with the state as it was when it
  was thrown: \<open>Inl (e, s)\<close>.
\<close>

definition onError :: "bool \<Rightarrow> jsval \<Rightarrow> state \<Rightarrow> (js_error \<times> state) + state" where
  "onError onLine error s =
     (let s1 = s\<lparr>testRunning := False, currentTest := None\<rparr> in
      case categorizeError onLine error of
        Inl e \<Rightarrow> Inl (e, s1)
      | Inr errorInfo \<Rightarrow>
          Inr (if (type errorInfo = ''network'' \<or> type errorInfo = ''rate-limit'') \<and>
                  retryCount s1 < maxRetries s1
               then let s2 = s1\<lparr>retryCount := retryCount s1 + 1\<rparr>;
                        delay = backoffDelay s2 * 2 ^ (retryCount s2 - 1)
                    in s2\<lparr>sent := sent s2 @ [FAST_SPEED_STATUS (RetryingIn ((delay + 999) div 1000))],
                          timers := timers s2 @ [delay]\<rparr>
               else s1\<lparr>retryCount := 0,
                       sent := sent s1 @
                         [FAST_SPEED_DONE (Failed (type errorInfo) (userMessage errorInfo))]\<rparr>))"

subsection \<open>Starting a run\<close>

text \<open>
  What \<^verbatim>\<open>new SpeedTest(config)\<close> and \<^verbatim>\<open>engine.play()\<close> do inside the wrapper's
  \<^verbatim>\<open>start()\<close>: the engine plays, or one of them throws a value.
\<close>

datatype enginePlay = Plays | PlayThrows jsval

text \<open>
  \<^verbatim>\<open>start()\<close> of the wrapper, with the service worker's \<^verbatim>\<open>onError\<close> as its
  callback; \<open>isRunning\<close> is the wrapper's own flag.
\<close>

definition speedTest_start ::
    "bool \<Rightarrow> bool \<Rightarrow> enginePlay \<Rightarrow> state \<Rightarrow> (js_error \<times> state) + state" where
  "speedTest_start isRunning onLine play s =
     (if isRunning then Inr s
      else (case play of
              Plays \<Rightarrow> Inr s
            | PlayThrows error \<Rightarrow>
                (case getProp error ''message'' of
                   Inl e \<Rightarrow> Inl (e, s)
                 | Inr m \<Rightarrow>
                     onError onLine (if truthy m then m else Str ''Failed to start speed test'') s)))"

text \<open>
  The \<^verbatim>\<open>catch (e)\<close> clause around \<^verbatim>\<open>speedTest.start()\<close> in
  \<^verbatim>\<open>startCloudflareSpeedTest\<close>.
\<close>

definition startFailed :: "bool \<Rightarrow> js_error \<Rightarrow> state \<Rightarrow> (js_error \<times> state) + state" where
  "startFailed onLine e s =
     (let s1 = s\<lparr>testRunning := False, currentTest := None\<rparr> in
      case categorizeError onLine (error_object e) of
        Inl e' \<Rightarrow> Inl (e', s1)
      | Inr errorInfo \<Rightarrow>
          Inr (s1\<lparr>sent := sent s1 @
                 [FAST_SPEED_DONE (Failed (type errorInfo) (userMessage errorInfo))]\<rparr>))"

text \<open>
  \<^verbatim>\<open>startCloudflareSpeedTest()\<close>. Every call builds a new wrapper, whose
  \<open>isRunning\<close> is \<^verbatim>\<open>false\<close>.
\<close>

definition startCloudflareSpeedTest ::
    "bool \<Rightarrow> enginePlay \<Rightarrow> state \<Rightarrow> (js_error \<times> state) + state" where
  "startCloudflareSpeedTest onLine play s =
     (if testRunning s then Inr s
      else if \<not> onLine
      then Inr (s\<lparr>sent := sent s @
                  [FAST_SPEED_DONE (Failed ''offline''
                     ''No internet connection detected. Please check your connection.'')]\<rparr>)
      else
        (case speedTest_start False onLine play
                (s\<lparr>testRunning := True,
                   sent := sent s @ [FAST_SPEED_STATUS Starting],
                   currentTest := Some (engineStarts s),
                   engineStarts := engineStarts s + 1\<rparr>) of
           Inr s' \<Rightarrow> Inr s'
         | Inl (e, s') \<Rightarrow> startFailed onLine e s'))"

text \<open>The callback of the \<open>i\<close>-th pending \<^verbatim>\<open>setTimeout\<close> runs.\<close>

definition timerFires :: "nat \<Rightarrow> bool \<Rightarrow> enginePlay \<Rightarrow> state \<Rightarrow> (js_error \<times> state) + state" where
  "timerFires i onLine play s =
     (if i < length (timers s)
      then startCloudflareSpeedTest onLine play
             (s\<lparr>timers := take i (timers s) @ drop (Suc i) (timers s)\<rparr>)
      else Inr s)"

subsection \<open>The message listener\<close>

text \<open>
  What \<^verbatim>\<open>sendResponse\<close> is given: \<^verbatim>\<open>{ok, reason?}\<close> for \<^verbatim>\<open>START_TEST\<close>,
  \<^verbatim>\<open>{running, lastResult}\<close> for \<^verbatim>\<open>GET_TEST_STATE\<close>.
\<close>

datatype response = StartResponse bool "string option" | StateResponse bool jsval

text \<open>
  The \<^verbatim>\<open>chrome.runtime.onMessage\<close> listener: the response, if one is sent, and the
  state.
\<close>

definition onMessage ::
    "bool \<Rightarrow> enginePlay \<Rightarrow> jsval \<Rightarrow> state \<Rightarrow> (js_error \<times> state) + (response option \<times> state)" where
  "onMessage onLine play message s =
     (if \<not> truthy message \<or> \<not> truthy (optProp message ''type'') then Inr (None, s)
      else if optProp message ''type'' = Str ''START_TEST''
      then (if testRunning s
            then Inr (Some (StartResponse False (Some ''already-running'')), s)
            else (case startCloudflareSpeedTest onLine play s of
                    Inl (e, s') \<Rightarrow> Inl (e, s')
                  | Inr s' \<Rightarrow> Inr (Some (StartResponse True None), s')))
      else if optProp message ''type'' = Str ''GET_TEST_STATE''
      then Inr (Some (StateResponse (testRunning s) (lastResult s)), s)
      else Inr (None, s))"

section \<open>What the specification states\<close>

text \<open>
  The specification's condition for keeping a stored element (Result Validator): a
  non-null object whose \<^verbatim>\<open>download\<close> field is of numeric type and finite.
\<close>

definition isValidEntry :: "jsval \<Rightarrow> bool" where
  "isValidEntry item \<longleftrightarrow>
     item \<noteq> Null \<and> typeof item = ''object'' \<and>
     typeof (optProp item ''download'') = ''number'' \<and>
     Number_isFinite (optProp item ''download'')"

text \<open>
  The specification's input type of the classifier: a \<^verbatim>\<open>message\<close> or
  \<^verbatim>\<open>name\<close> field is a string when it is present; this is the test on a field's value.
\<close>

fun stringOrAbsent :: "jsval \<Rightarrow> bool" where
  "stringOrAbsent Undefined = True"
| "stringOrAbsent Null = True"
| "stringOrAbsent (Str s) = True"
| "stringOrAbsent v = False"

text \<open>
  The specification's delay formula (Retry Controller):
  \<^verbatim>\<open>delayMs = baseDelayMs * 2^(state.count)\<close>, with the count read before it is
  incremented.
\<close>

definition specDelay :: "nat \<Rightarrow> nat \<Rightarrow> nat" where
  "specDelay baseDelayMs count = baseDelayMs * 2 ^ count"

section \<open>Example inputs\<close>

text \<open>A start request, and an error whose message is a network failure's.\<close>

definition startRequest :: jsval where
  "startRequest = Obj [(''type'', Str ''START_TEST'')]"

definition fetchError :: jsval where
  "fetchError = Obj [(''name'', Str ''TypeError''), (''message'', Str ''Failed to fetch'')]"

text \<open>
  The states of a first run: \<open>runningState\<close> after an accepted start request in
  \<open>STATE\<close>, \<open>awaitingRetry\<close> after the engine then reported \<open>fetchError\<close> (the timer of
  the first retry is pending), \<open>secondRun\<close> after a start request in that state.
\<close>

definition runningState :: state where
  "runningState = STATE\<lparr>testRunning := True, currentTest := Some 0,
                         sent := [FAST_SPEED_STATUS Starting], engineStarts := 1\<rparr>"

definition awaitingRetry :: state where
  "awaitingRetry = STATE\<lparr>retryCount := 1,
                          sent := [FAST_SPEED_STATUS Starting, FAST_SPEED_STATUS (RetryingIn 1)],
                          timers := [1000], engineStarts := 1\<rparr>"

definition secondRun :: state where
  "secondRun = STATE\<lparr>testRunning := True, currentTest := Some 1, retryCount := 1,
                      sent := [FAST_SPEED_STATUS Starting, FAST_SPEED_STATUS (RetryingIn 1),
                               FAST_SPEED_STATUS Starting],
                      timers := [1000], engineStarts := 2\<rparr>"

text \<open>A measured result, and two entries of an earlier history.\<close>

definition sampleResult :: finalResults where
  "sampleResult = \<lparr>download = Num (Finite 94), upload = Num (Finite 12), latency = Null,
                   jitter = Undefined, downLoadedLatency = Null, upLoadedLatency = Null,
                   timestamp = 1700000000000\<rparr>"

definition olderEntry :: jsval where
  "olderEntry = Obj [(''ts'', Num (Finite 1600000000000)), (''download'', Num (Finite 50))]"

definition oldestEntry :: jsval where
  "oldestEntry = Obj [(''ts'', Num (Finite 1500000000000)), (''download'', Num (Finite 40))]"

section \<open>Strings and classification: basic facts\<close>

lemma str_includes_iff: "str_includes s p \<longleftrightarrow> (\<exists>a b. s = a @ p @ b)"
proof (induction s)
  case Nil
  then show ?case by auto
next
  case (Cons c cs)
  have "take (length p) (c # cs) = p \<longleftrightarrow> (\<exists>b. c # cs = p @ b)"
    by (metis append_eq_conv_conj append_take_drop_id)
  moreover have "(\<exists>a b. c # cs = a @ p @ b) \<longleftrightarrow>
                 (\<exists>b. c # cs = p @ b) \<or> (\<exists>a b. cs = a @ p @ b)"
  proof
    assume "\<exists>a b. c # cs = a @ p @ b"
    then obtain a b where ab: "c # cs = a @ p @ b" by blast
    show "(\<exists>b. c # cs = p @ b) \<or> (\<exists>a b. cs = a @ p @ b)"
    proof (cases a)
      case Nil
      with ab show ?thesis by auto
    next
      case (Cons x a')
      with ab have "cs = a' @ p @ b" by simp
      then show ?thesis by blast
    qed
  next
    assume "(\<exists>b. c # cs = p @ b) \<or> (\<exists>a b. cs = a @ p @ b)"
    then show "\<exists>a b. c # cs = a @ p @ b"
    proof
      assume "\<exists>b. c # cs = p @ b"
      then obtain b where "c # cs = [] @ p @ b" by auto
      then show ?thesis by blast
    next
      assume "\<exists>a b. cs = a @ p @ b"
      then obtain a b where "c # cs = (c # a) @ p @ b" by auto
      then show ?thesis by blast
    qed
  qed
  ultimately show ?case using Cons.IH by simp
qed

lemma lowerField_Inr_iff: "(\<exists>s. lowerField k v = Inr s) \<longleftrightarrow> stringOrAbsent v"
  by (cases v) simp_all

lemma lowerField_Inl_iff: "(\<exists>e. lowerField k v = Inl e) \<longleftrightarrow> \<not> stringOrAbsent v"
  by (cases v) simp_all

lemma categorizeError_cases:
  assumes "lowerField ''message'' (optProp error ''message'') = Inr message"
      and "lowerField ''name'' (optProp error ''name'') = Inr name"
  shows "categorizeError onLine error =
      Inr (if str_includes message ''network'' \<or> str_includes message ''fetch'' \<or>
              str_includes message ''timeout'' \<or> str_includes message ''connection'' \<or>
              name = ''networkerror'' \<or> \<not> onLine
           then \<lparr>type = ''network'',
                 userMessage = ''Network connection issue. Please check your internet connection.''\<rparr>
           else if str_includes message ''429'' \<or> str_includes message ''rate limit'' \<or>
                   str_includes message ''too many requests''
           then \<lparr>type = ''rate-limit'',
                 userMessage = ''Too many requests. Please wait a moment and try again.''\<rparr>
           else if str_includes message ''cors'' \<or> str_includes message ''blocked'' \<or>
                   str_includes message ''security''
           then \<lparr>type = ''security'',
                 userMessage = ''Connection blocked. Please check your browser settings.''\<rparr>
           else \<lparr>type = ''unknown'', userMessage = ''Test failed. Please try again.''\<rparr>)"
  using assms by (simp add: categorizeError_def)

lemma categorizeError_fields:
  assumes "categorizeError onLine error = Inr ei"
  obtains message name where
    "lowerField ''message'' (optProp error ''message'') = Inr message"
    "lowerField ''name'' (optProp error ''name'') = Inr name"
proof -
  obtain message where m: "lowerField ''message'' (optProp error ''message'') = Inr message"
    using assms
    by (cases "lowerField ''message'' (optProp error ''message'')")
       (simp_all add: categorizeError_def)
  obtain name where n: "lowerField ''name'' (optProp error ''name'') = Inr name"
    using assms m
    by (cases "lowerField ''name'' (optProp error ''name'')")
       (simp_all add: categorizeError_def)
  from m n that show ?thesis by blast
qed

lemma categorizeError_range:
  assumes "categorizeError onLine error = Inr ei"
  shows "ei = \<lparr>type = ''network'',
                 userMessage = ''Network connection issue. Please check your internet connection.''\<rparr> \<or>
         ei = \<lparr>type = ''rate-limit'',
                 userMessage = ''Too many requests. Please wait a moment and try again.''\<rparr> \<or>
         ei = \<lparr>type = ''security'',
                 userMessage = ''Connection blocked. Please check your browser settings.''\<rparr> \<or>
         ei = \<lparr>type = ''unknown'', userMessage = ''Test failed. Please try again.''\<rparr>"
proof -
  obtain message name where m: "lowerField ''message'' (optProp error ''message'') = Inr message"
    and n: "lowerField ''name'' (optProp error ''name'') = Inr name"
    using assms by (rule categorizeError_fields)
  show ?thesis
    using assms unfolding categorizeError_cases [OF m n] by (simp split: if_splits)
qed

lemma categorizeError_Inr_iff:
  "(\<exists>ei. categorizeError onLine error = Inr ei) \<longleftrightarrow>
   stringOrAbsent (optProp error ''message'') \<and> stringOrAbsent (optProp error ''name'')"
proof
  assume "\<exists>ei. categorizeError onLine error = Inr ei"
  then obtain ei where ei: "categorizeError onLine error = Inr ei" ..
  obtain message name where "lowerField ''message'' (optProp error ''message'') = Inr message"
    and "lowerField ''name'' (optProp error ''name'') = Inr name"
    using ei by (rule categorizeError_fields)
  then show "stringOrAbsent (optProp error ''message'') \<and> stringOrAbsent (optProp error ''name'')"
    using lowerField_Inr_iff by blast
next
  assume "stringOrAbsent (optProp error ''message'') \<and> stringOrAbsent (optProp error ''name'')"
  then obtain message name where
      "lowerField ''message'' (optProp error ''message'') = Inr message"
      "lowerField ''name'' (optProp error ''name'') = Inr name"
    using lowerField_Inr_iff by blast
  then show "\<exists>ei. categorizeError onLine error = Inr ei"
    using categorizeError_cases by blast
qed

lemma categorizeError_error_object: "\<exists>ei. categorizeError onLine (error_object e) = Inr ei"
  by (cases e) (simp add: categorizeError_Inr_iff)

lemma categorizeError_fetchError:
  "categorizeError True fetchError =
     Inr \<lparr>type = ''network'',
          userMessage = ''Network connection issue. Please check your internet connection.''\<rparr>"
  by (simp add: categorizeError_def fetchError_def toLowerCase_def lowerChar_def)

section \<open>The classifier\<close>

text \<open>
  C6. The classifier is a priority list with the network check first. For every error
  whose \<^verbatim>\<open>message\<close> and \<^verbatim>\<open>name\<close> are strings or absent (\<open>message\<close> and \<open>name\<close> below
  are the lower-cased fields, empty when absent): offline, the kind is \<^verbatim>\<open>network\<close>
  whatever the message; a network keyword or the name \<^verbatim>\<open>networkerror\<close> gives
  \<^verbatim>\<open>network\<close> before any other check; online and with the network check failing, a message
  containing \<^verbatim>\<open>429\<close>, \<^verbatim>\<open>rate limit\<close> or \<^verbatim>\<open>too many requests\<close> gives
  \<^verbatim>\<open>rate-limit\<close>; and each kind comes with its fixed user message.
\<close>

theorem classifier_priority:
  assumes "lowerField ''message'' (optProp error ''message'') = Inr message"
      and "lowerField ''name'' (optProp error ''name'') = Inr name"
  shows "\<exists>ei. categorizeError onLine error = Inr ei \<and>
     (\<not> onLine \<longrightarrow> type ei = ''network'') \<and>
     (str_includes message ''network'' \<or> str_includes message ''fetch'' \<or>
      str_includes message ''timeout'' \<or> str_includes message ''connection'' \<or>
      name = ''networkerror'' \<longrightarrow> type ei = ''network'') \<and>
     (onLine \<and> \<not> str_includes message ''network'' \<and> \<not> str_includes message ''fetch'' \<and>
      \<not> str_includes message ''timeout'' \<and> \<not> str_includes message ''connection'' \<and>
      name \<noteq> ''networkerror'' \<and>
      (str_includes message ''429'' \<or> str_includes message ''rate limit'' \<or>
       str_includes message ''too many requests'') \<longrightarrow> type ei = ''rate-limit'') \<and>
     (type ei = ''network'' \<longrightarrow>
        userMessage ei = ''Network connection issue. Please check your internet connection.'') \<and>
     (type ei = ''rate-limit'' \<longrightarrow>
        userMessage ei = ''Too many requests. Please wait a moment and try again.'') \<and>
     (type ei = ''security'' \<longrightarrow>
        userMessage ei = ''Connection blocked. Please check your browser settings.'') \<and>
     (type ei = ''unknown'' \<longrightarrow> userMessage ei = ''Test failed. Please try again.'') \<and>
     type ei \<in> {''network'', ''rate-limit'', ''security'', ''unknown''}"
  unfolding categorizeError_cases [OF assms] by simp

text \<open>
  The two examples of the specification: the message \<^verbatim>\<open>HTTP 429: too many requests\<close>
  online, and the message \<^verbatim>\<open>anything\<close> offline.
\<close>

theorem classifier_priority_witness:
  "(\<exists>ei. categorizeError True (Obj [(''message'', Str ''HTTP 429: too many requests'')]) = Inr ei \<and>
         type ei = ''rate-limit'' \<and>
         userMessage ei = ''Too many requests. Please wait a moment and try again.'') \<and>
   (\<exists>ei. categorizeError False (Obj [(''message'', Str ''anything'')]) = Inr ei \<and>
         type ei = ''network'' \<and>
         userMessage ei = ''Network connection issue. Please check your internet connection.'')"
proof -
  have m1: "lowerField ''message'' (optProp (Obj [(''message'', Str ''HTTP 429: too many requests'')])
              ''message'') = Inr ''http 429: too many requests''"
    by (simp add: toLowerCase_def lowerChar_def)
  have n1: "lowerField ''name'' (optProp (Obj [(''message'', Str ''HTTP 429: too many requests'')])
              ''name'') = Inr []"
    by simp
  have m2: "lowerField ''message'' (optProp (Obj [(''message'', Str ''anything'')]) ''message'') =
              Inr ''anything''"
    by (simp add: toLowerCase_def lowerChar_def)
  have n2: "lowerField ''name'' (optProp (Obj [(''message'', Str ''anything'')]) ''name'') = Inr []"
    by simp
  have k: "str_includes ''http 429: too many requests'' ''429''"
          "\<not> str_includes ''http 429: too many requests'' ''network''"
          "\<not> str_includes ''http 429: too many requests'' ''fetch''"
          "\<not> str_includes ''http 429: too many requests'' ''timeout''"
          "\<not> str_includes ''http 429: too many requests'' ''connection''"
    by simp_all
  from classifier_priority [OF m1 n1, of True] k
  have "\<exists>ei. categorizeError True (Obj [(''message'', Str ''HTTP 429: too many requests'')]) = Inr ei \<and>
         type ei = ''rate-limit'' \<and>
         userMessage ei = ''Too many requests. Please wait a moment and try again.''"
    by auto
  moreover from classifier_priority [OF m2 n2, of False]
  have "\<exists>ei. categorizeError False (Obj [(''message'', Str ''anything'')]) = Inr ei \<and>
         type ei = ''network'' \<and>
         userMessage ei = ''Network connection issue. Please check your internet connection.''"
    by auto
  ultimately show ?thesis by blast
qed

text \<open>
  C9, as the code has it. The classifier returns exactly when the \<^verbatim>\<open>message\<close> and the
  \<^verbatim>\<open>name\<close> of its input are each absent, \<^verbatim>\<open>null\<close> or a string (so for
  \<^verbatim>\<open>null\<close>, \<^verbatim>\<open>undefined\<close>, a string, an object lacking the fields), and then with one
  of the four fixed pairs; a field holding any other value makes it throw a
  \<^verbatim>\<open>TypeError\<close>.
\<close>

theorem classifier_total_on_string_fields:
  "(stringOrAbsent (optProp error ''message'') \<and> stringOrAbsent (optProp error ''name'') \<longrightarrow>
      (\<exists>ei. categorizeError onLine error = Inr ei \<and>
         (ei = \<lparr>type = ''network'',
                 userMessage = ''Network connection issue. Please check your internet connection.''\<rparr> \<or>
          ei = \<lparr>type = ''rate-limit'',
                 userMessage = ''Too many requests. Please wait a moment and try again.''\<rparr> \<or>
          ei = \<lparr>type = ''security'',
                 userMessage = ''Connection blocked. Please check your browser settings.''\<rparr> \<or>
          ei = \<lparr>type = ''unknown'', userMessage = ''Test failed. Please try again.''\<rparr>))) \<and>
   (\<not> (stringOrAbsent (optProp error ''message'') \<and> stringOrAbsent (optProp error ''name'')) \<longrightarrow>
      (\<exists>e. categorizeError onLine error = Inl e))"
proof (intro conjI impI)
  assume "stringOrAbsent (optProp error ''message'') \<and> stringOrAbsent (optProp error ''name'')"
  then obtain ei where ei: "categorizeError onLine error = Inr ei"
    using categorizeError_Inr_iff by blast
  show "\<exists>ei. categorizeError onLine error = Inr ei \<and>
         (ei = \<lparr>type = ''network'',
                 userMessage = ''Network connection issue. Please check your internet connection.''\<rparr> \<or>
          ei = \<lparr>type = ''rate-limit'',
                 userMessage = ''Too many requests. Please wait a moment and try again.''\<rparr> \<or>
          ei = \<lparr>type = ''security'',
                 userMessage = ''Connection blocked. Please check your browser settings.''\<rparr> \<or>
          ei = \<lparr>type = ''unknown'', userMessage = ''Test failed. Please try again.''\<rparr>)"
  proof (intro exI conjI)
    show "categorizeError onLine error = Inr ei" by (rule ei)
  qed (rule categorizeError_range [OF ei])
next
  assume "\<not> (stringOrAbsent (optProp error ''message'') \<and> stringOrAbsent (optProp error ''name''))"
  then have "\<not> (\<exists>ei. categorizeError onLine error = Inr ei)"
    using categorizeError_Inr_iff by blast
  then show "\<exists>e. categorizeError onLine error = Inl e"
    by (cases "categorizeError onLine error") auto
qed

theorem classifier_total_on_string_fields_witness:
  "categorizeError True Undefined =
     Inr \<lparr>type = ''unknown'', userMessage = ''Test failed. Please try again.''\<rparr> \<and>
   categorizeError True Null =
     Inr \<lparr>type = ''unknown'', userMessage = ''Test failed. Please try again.''\<rparr> \<and>
   categorizeError True (Obj []) =
     Inr \<lparr>type = ''unknown'', userMessage = ''Test failed. Please try again.''\<rparr> \<and>
   (\<exists>e. categorizeError True (Obj [(''name'', Bool True)]) = Inl e)"
  using classifier_total_on_string_fields [of Undefined True]
        classifier_total_on_string_fields [of "Obj [(''name'', Bool True)]" True]
  by (simp add: categorizeError_def)

text \<open>
  C9 as stated fails: a \<^verbatim>\<open>message\<close> that is a number passes the optional chain and
  has no \<^verbatim>\<open>toLowerCase\<close>.
\<close>

theorem classifier_throws_on_number_message:
  "categorizeError True (Obj [(''message'', Num (Finite 42))]) =
     Inl (TypeError ''error?.message?.toLowerCase is not a function'')"
  by (simp add: categorizeError_def)

section \<open>The read-side filter\<close>

lemma keepItem_eq: "keepItem item = Inr (isValidEntry item)"
  by (cases item) (auto simp: keepItem_def isValidEntry_def getProp_def)

lemma filterItems_eq: "filterItems items = Inr (filter isValidEntry items)"
  by (induction items) (simp_all add: keepItem_eq)

lemma filterResults_Inr: "\<exists>prev. filterResults raw = Inr prev"
  by (cases raw) (simp_all add: filterItems_eq)

lemma validPrev_Arr: "validPrev (Arr items) = filter isValidEntry items"
  by (simp add: validPrev_def filterItems_eq)

lemma validPrev_not_array: "\<not> Array_isArray raw \<Longrightarrow> validPrev raw = []"
  by (cases raw) (simp_all add: validPrev_def)

lemma validPrev_valid: "item \<in> set (validPrev raw) \<Longrightarrow> isValidEntry item"
  by (cases raw) (simp_all add: validPrev_def filterItems_eq)

lemma isValidEntry_iff:
  "isValidEntry item \<longleftrightarrow>
     (\<exists>kvs r. item = Obj kvs \<and> map_of kvs ''download'' = Some (Num (Finite r)))"
proof (cases item)
  case (Obj kvs)
  show ?thesis
  proof (cases "map_of kvs ''download''")
    case None
    with Obj show ?thesis by (simp add: isValidEntry_def)
  next
    case (Some d)
    show ?thesis
    proof (cases d)
      case (Num n)
      with Obj Some show ?thesis by (cases n) (simp_all add: isValidEntry_def)
    qed (use Obj Some in \<open>simp_all add: isValidEntry_def\<close>)
  qed
qed (simp_all add: isValidEntry_def)

lemma isValidEntry_finite:
  assumes "isValidEntry item"
  shows "item \<noteq> Null \<and> typeof item = ''object'' \<and>
         (\<exists>r. getProp item ''download'' = Inr (Num (Finite r)))"
proof -
  obtain kvs r where "item = Obj kvs" "map_of kvs ''download'' = Some (Num (Finite r))"
    using assms isValidEntry_iff by blast
  then show ?thesis by (simp add: getProp_def)
qed

text \<open>
  C3. Whatever value the read-side filter is given, its \<^verbatim>\<open>try\<close> body does not raise;
  every element of its output is a non-null object whose \<^verbatim>\<open>download\<close> is a finite
  number; and an input that is no array (\<^verbatim>\<open>undefined\<close> and \<^verbatim>\<open>null\<close> included)
  gives the empty sequence.
\<close>

theorem read_side_filter:
  "(\<exists>prev. filterResults raw = Inr prev) \<and>
   (\<forall>item \<in> set (validPrev raw).
      item \<noteq> Null \<and> typeof item = ''object'' \<and>
      (\<exists>r. getProp item ''download'' = Inr (Num (Finite r)))) \<and>
   (\<not> Array_isArray raw \<longrightarrow> validPrev raw = [])"
  using filterResults_Inr validPrev_not_array validPrev_valid isValidEntry_finite by blast

theorem read_side_filter_witness:
  "validPrev (Arr [Null, Num (Finite 1), Obj [(''download'', Num NaN)],
                   Obj [(''download'', Num (Finite 3))], Arr [], Str ''x'', Undefined,
                   Obj [(''download'', Str ''7'')], Obj [(''download'', Num PosInfinity)]]) =
     [Obj [(''download'', Num (Finite 3))]] \<and>
   getProp (Obj [(''download'', Num (Finite 3))]) ''download'' = Inr (Num (Finite 3)) \<and>
   \<not> Array_isArray Undefined \<and> validPrev Undefined = [] \<and> validPrev Null = [] \<and>
   validPrev (Obj [(''length'', Num (Finite 1))]) = []"
  using read_side_filter [of "Arr [Null, Num (Finite 1), Obj [(''download'', Num NaN)],
                   Obj [(''download'', Num (Finite 3))], Arr [], Str ''x'', Undefined,
                   Obj [(''download'', Str ''7'')], Obj [(''download'', Num PosInfinity)]]"]
        read_side_filter [of Undefined]
  by (simp add: validPrev_def keepItem_def getProp_def)

section \<open>Failure of a run\<close>

lemma onError_retry:
  assumes "categorizeError onLine error = Inr ei"
      and "type ei = ''network'' \<or> type ei = ''rate-limit''"
      and "retryCount s < maxRetries s"
  shows "onError onLine error s =
          Inr (s\<lparr>testRunning := False, currentTest := None, retryCount := retryCount s + 1,
                 sent := sent s @
                   [FAST_SPEED_STATUS (RetryingIn ((backoffDelay s * 2 ^ retryCount s + 999) div 1000))],
                 timers := timers s @ [backoffDelay s * 2 ^ retryCount s]\<rparr>)"
  using assms by (simp add: onError_def Let_def)

lemma onError_terminal:
  assumes "categorizeError onLine error = Inr ei"
      and "\<not> ((type ei = ''network'' \<or> type ei = ''rate-limit'') \<and> retryCount s < maxRetries s)"
  shows "onError onLine error s =
          Inr (s\<lparr>testRunning := False, currentTest := None, retryCount := 0,
                 sent := sent s @ [FAST_SPEED_DONE (Failed (type ei) (userMessage ei))]\<rparr>)"
  using assms by (simp add: onError_def Let_def)

lemma onError_throws:
  assumes "categorizeError onLine error = Inl e"
  shows "onError onLine error s = Inl (e, s\<lparr>testRunning := False, currentTest := None\<rparr>)"
  using assms by (simp add: onError_def Let_def)

lemma onError_engineStarts:
  "(\<forall>s'. onError onLine error s = Inr s' \<longrightarrow> engineStarts s' = engineStarts s) \<and>
   (\<forall>e s'. onError onLine error s = Inl (e, s') \<longrightarrow> engineStarts s' = engineStarts s)"
proof (cases "categorizeError onLine error")
  case (Inl e')
  then show ?thesis by (auto simp: onError_throws)
next
  case (Inr ei)
  show ?thesis
  proof (cases "(type ei = ''network'' \<or> type ei = ''rate-limit'') \<and> retryCount s < maxRetries s")
    case True
    then show ?thesis using onError_retry [OF Inr, of s] by auto
  next
    case False
    then show ?thesis using onError_terminal [OF Inr False] by auto
  qed
qed

text \<open>
  C2. When \<^verbatim>\<open>onError\<close> decides a retry, the delay of the timer it sets is the
  specification's \<open>baseDelayMs * 2 ^ count\<close> at the count before the increment; with
  the base delay 1000 the first, second and third retry (counts 0, 1, 2) wait 1000,
  2000 and 4000 milliseconds.
\<close>

theorem backoff_delays:
  assumes "categorizeError onLine error = Inr ei"
      and "type ei = ''network'' \<or> type ei = ''rate-limit''"
      and "retryCount s < maxRetries s"
  shows "\<exists>s'. onError onLine error s = Inr s' \<and>
           retryCount s' = retryCount s + 1 \<and>
           timers s' = timers s @ [specDelay (backoffDelay s) (retryCount s)] \<and>
           (backoffDelay s = 1000 \<longrightarrow>
              (retryCount s = 0 \<longrightarrow> timers s' = timers s @ [1000]) \<and>
              (retryCount s = 1 \<longrightarrow> timers s' = timers s @ [2000]) \<and>
              (retryCount s = 2 \<longrightarrow> timers s' = timers s @ [4000]))"
  unfolding onError_retry [OF assms] by (simp add: specDelay_def)

text \<open>
  The three retries of a run: a running state of \<open>STATE\<close> with the counts 0, 1 and 2,
  each failing with \<open>fetchError\<close>.
\<close>

theorem backoff_delays_witness:
  "(\<exists>s'. onError True fetchError (STATE\<lparr>testRunning := True\<rparr>) = Inr s' \<and>
         retryCount s' = 1 \<and> timers s' = [1000]) \<and>
   (\<exists>s'. onError True fetchError (STATE\<lparr>testRunning := True, retryCount := 1\<rparr>) = Inr s' \<and>
         retryCount s' = 2 \<and> timers s' = [2000]) \<and>
   (\<exists>s'. onError True fetchError (STATE\<lparr>testRunning := True, retryCount := 2\<rparr>) = Inr s' \<and>
         retryCount s' = 3 \<and> timers s' = [4000])"
proof -
  have t: "type \<lparr>type = ''network'',
            userMessage = ''Network connection issue. Please check your internet connection.''\<rparr> =
           ''network'' \<or>
           type \<lparr>type = ''network'',
            userMessage = ''Network connection issue. Please check your internet connection.''\<rparr> =
           ''rate-limit''"
    by simp
  have r: "retryCount (STATE\<lparr>testRunning := True\<rparr>) < maxRetries (STATE\<lparr>testRunning := True\<rparr>)"
      "retryCount (STATE\<lparr>testRunning := True, retryCount := 1\<rparr>) <
         maxRetries (STATE\<lparr>testRunning := True, retryCount := 1\<rparr>)"
      "retryCount (STATE\<lparr>testRunning := True, retryCount := 2\<rparr>) <
         maxRetries (STATE\<lparr>testRunning := True, retryCount := 2\<rparr>)"
    by (simp_all add: STATE_def)
  show ?thesis
    using backoff_delays [OF categorizeError_fetchError t r(1)]
          backoff_delays [OF categorizeError_fetchError t r(2)]
          backoff_delays [OF categorizeError_fetchError t r(3)]
    by (auto simp: STATE_def)
qed

text \<open>
  C4. For a failure the classifier has classified, with the maximum of 3:
  \<^verbatim>\<open>onError\<close> sets a retry timer exactly when the kind is \<^verbatim>\<open>network\<close> or
  \<^verbatim>\<open>rate-limit\<close> and the count is below 3; a retry adds exactly 1 to the count and
  sends no \<^verbatim>\<open>FAST_SPEED_DONE\<close>; otherwise the count is reset to 0, no timer is set, and
  exactly one message is sent, the failure with the kind and its user message.
\<close>

theorem retry_decision:
  assumes "categorizeError onLine error = Inr ei" and "maxRetries s = 3"
  shows "\<exists>s'. onError onLine error s = Inr s' \<and>
           ((\<exists>delay. timers s' = timers s @ [delay]) \<longleftrightarrow>
              (type ei = ''network'' \<or> type ei = ''rate-limit'') \<and> retryCount s < 3) \<and>
           ((type ei = ''network'' \<or> type ei = ''rate-limit'') \<and> retryCount s < 3 \<longrightarrow>
              retryCount s' = retryCount s + 1 \<and>
              (\<exists>seconds. sent s' = sent s @ [FAST_SPEED_STATUS (RetryingIn seconds)])) \<and>
           (\<not> ((type ei = ''network'' \<or> type ei = ''rate-limit'') \<and> retryCount s < 3) \<longrightarrow>
              retryCount s' = 0 \<and> timers s' = timers s \<and>
              sent s' = sent s @ [FAST_SPEED_DONE (Failed (type ei) (userMessage ei))])"
proof (cases "(type ei = ''network'' \<or> type ei = ''rate-limit'') \<and> retryCount s < 3")
  case True
  then have "type ei = ''network'' \<or> type ei = ''rate-limit''" "retryCount s < maxRetries s"
    using assms(2) by simp_all
  from onError_retry [OF assms(1) this] True show ?thesis by simp
next
  case False
  then have "\<not> ((type ei = ''network'' \<or> type ei = ''rate-limit'') \<and> retryCount s < maxRetries s)"
    using assms(2) by simp
  from onError_terminal [OF assms(1) this] False show ?thesis by simp
qed

text \<open>
  A first network failure is retried; the fourth (count 3) is terminal; so is a first
  failure of kind \<^verbatim>\<open>security\<close>.
\<close>

theorem retry_decision_witness:
  "onError True fetchError runningState = Inr awaitingRetry \<and>
   onError True fetchError (runningState\<lparr>retryCount := 3\<rparr>) =
     Inr (STATE\<lparr>sent := [FAST_SPEED_STATUS Starting,
                           FAST_SPEED_DONE (Failed ''network''
                             ''Network connection issue. Please check your internet connection.'')],
                 engineStarts := 1\<rparr>) \<and>
   onError True (Obj [(''message'', Str ''Blocked by CORS policy'')]) runningState =
     Inr (STATE\<lparr>sent := [FAST_SPEED_STATUS Starting,
                           FAST_SPEED_DONE (Failed ''security''
                             ''Connection blocked. Please check your browser settings.'')],
                 engineStarts := 1\<rparr>)"
proof -
  have c: "categorizeError True (Obj [(''message'', Str ''Blocked by CORS policy'')]) =
             Inr \<lparr>type = ''security'',
                  userMessage = ''Connection blocked. Please check your browser settings.''\<rparr>"
    by (simp add: categorizeError_def toLowerCase_def lowerChar_def)
  have m: "maxRetries runningState = 3" "maxRetries (runningState\<lparr>retryCount := 3\<rparr>) = 3"
    by (simp_all add: runningState_def STATE_def)
  show ?thesis
    using retry_decision [OF categorizeError_fetchError m(1)]
          retry_decision [OF categorizeError_fetchError m(2)]
          retry_decision [OF c m(1)]
    by (simp add: onError_def Let_def categorizeError_fetchError c
                  runningState_def awaitingRetry_def STATE_def)
qed

section \<open>Start requests\<close>

lemma speedTest_start_engineStarts:
  "(\<forall>s'. speedTest_start r onLine play s = Inr s' \<longrightarrow> engineStarts s' = engineStarts s) \<and>
   (\<forall>e s'. speedTest_start r onLine play s = Inl (e, s') \<longrightarrow> engineStarts s' = engineStarts s)"
  using onError_engineStarts [of onLine _ s]
  by (auto simp: speedTest_start_def split: enginePlay.splits sum.splits)

lemma startFailed_returns:
  "\<exists>s'. startFailed onLine e s = Inr s' \<and> engineStarts s' = engineStarts s"
proof -
  obtain ei where "categorizeError onLine (error_object e) = Inr ei"
    using categorizeError_error_object by blast
  then show ?thesis by (simp add: startFailed_def Let_def)
qed

lemma startCloudflareSpeedTest_running:
  "testRunning s \<Longrightarrow> startCloudflareSpeedTest onLine play s = Inr s"
  by (simp add: startCloudflareSpeedTest_def)

lemma startCloudflareSpeedTest_offline:
  "\<not> testRunning s \<Longrightarrow> \<not> onLine \<Longrightarrow>
   startCloudflareSpeedTest onLine play s =
     Inr (s\<lparr>sent := sent s @
            [FAST_SPEED_DONE (Failed ''offline''
               ''No internet connection detected. Please check your connection.'')]\<rparr>)"
  by (simp add: startCloudflareSpeedTest_def)

lemma startCloudflareSpeedTest_started:
  assumes "\<not> testRunning s" and "onLine"
  shows "\<exists>s'. startCloudflareSpeedTest onLine play s = Inr s' \<and>
              engineStarts s' = engineStarts s + 1"
proof -
  define s3 where
    "s3 = s\<lparr>testRunning := True, sent := sent s @ [FAST_SPEED_STATUS Starting],
            currentTest := Some (engineStarts s), engineStarts := engineStarts s + 1\<rparr>"
  have e3: "engineStarts s3 = engineStarts s + 1" by (simp add: s3_def)
  have u: "startCloudflareSpeedTest onLine play s =
             (case speedTest_start False onLine play s3 of
                Inr s' \<Rightarrow> Inr s' | Inl (e, s') \<Rightarrow> startFailed onLine e s')"
    using assms unfolding startCloudflareSpeedTest_def s3_def by simp
  show ?thesis
  proof (cases "speedTest_start False onLine play s3")
    case (Inr s4)
    then have "engineStarts s4 = engineStarts s3"
      using speedTest_start_engineStarts [of False onLine play s3] by blast
    with Inr u e3 show ?thesis by simp
  next
    case (Inl p)
    obtain e s4 where p: "p = (e, s4)" by (cases p)
    have "engineStarts s4 = engineStarts s3"
      using speedTest_start_engineStarts [of False onLine play s3] Inl p by blast
    moreover obtain s' where "startFailed onLine e s4 = Inr s'" "engineStarts s' = engineStarts s4"
      using startFailed_returns by blast
    ultimately show ?thesis using Inl p u e3 by simp
  qed
qed

text \<open>
  \<^verbatim>\<open>startCloudflareSpeedTest\<close> never throws: what its \<^verbatim>\<open>catch\<close> clause classifies is
  an error object with string fields.
\<close>

lemma startCloudflareSpeedTest_returns:
  "\<exists>s'. startCloudflareSpeedTest onLine play s = Inr s'"
proof (cases "testRunning s")
  case True
  then show ?thesis by (simp add: startCloudflareSpeedTest_running)
next
  case False
  then show ?thesis
    using startCloudflareSpeedTest_started [of s onLine play]
          startCloudflareSpeedTest_offline [of s onLine play]
    by (cases onLine) auto
qed

text \<open>
  C1, as the code has it. A start request that arrives while a run executes
  (\<open>testRunning\<close>) is answered \<^verbatim>\<open>{ok: false, reason: 'already-running'}\<close> and changes
  nothing: no message, no timer, no call of the engine. A start request that arrives
  while no run executes is answered \<^verbatim>\<open>{ok: true}\<close>, also while a retry timer is
  pending, and when online it calls the engine once more.
\<close>

theorem start_request_guard:
  assumes "optProp message ''type'' = Str ''START_TEST''"
  shows "(testRunning s \<longrightarrow>
            onMessage onLine play message s =
              Inr (Some (StartResponse False (Some ''already-running'')), s)) \<and>
         (\<not> testRunning s \<longrightarrow>
            (\<exists>s'. onMessage onLine play message s = Inr (Some (StartResponse True None), s') \<and>
                  (onLine \<longrightarrow> engineStarts s' = engineStarts s + 1)))"
proof -
  have t: "truthy message" using assms by (cases message) simp_all
  show ?thesis
  proof (intro conjI impI)
    assume "testRunning s"
    then show "onMessage onLine play message s =
              Inr (Some (StartResponse False (Some ''already-running'')), s)"
      using assms t by (simp add: onMessage_def)
  next
    assume a: "\<not> testRunning s"
    obtain s' where s': "startCloudflareSpeedTest onLine play s = Inr s'"
      using startCloudflareSpeedTest_returns by blast
    have "onLine \<longrightarrow> engineStarts s' = engineStarts s + 1"
      using startCloudflareSpeedTest_started [OF a, of onLine play] s' by auto
    then show "\<exists>s'. onMessage onLine play message s = Inr (Some (StartResponse True None), s') \<and>
                  (onLine \<longrightarrow> engineStarts s' = engineStarts s + 1)"
      using assms t a s' by (simp add: onMessage_def)
  qed
qed

theorem start_request_guard_witness:
  "testRunning runningState \<and>
   onMessage True Plays startRequest runningState =
     Inr (Some (StartResponse False (Some ''already-running'')), runningState) \<and>
   \<not> testRunning STATE \<and>
   onMessage True Plays startRequest STATE = Inr (Some (StartResponse True None), runningState) \<and>
   engineStarts runningState = engineStarts STATE + 1"
proof -
  have m: "optProp startRequest ''type'' = Str ''START_TEST''"
    by (simp add: startRequest_def)
  show ?thesis
    using start_request_guard [OF m, of runningState True Plays]
          start_request_guard [OF m, of STATE True Plays]
    by (simp add: onMessage_def startCloudflareSpeedTest_def speedTest_start_def
                  startRequest_def runningState_def STATE_def)
qed

text \<open>
  C1 as stated fails while a retry is awaited. After an accepted start request and a
  network failure, the timer of the first retry is pending and \<open>testRunning\<close> is false;
  a start request in that state is accepted and the engine is called a second time.
\<close>

theorem start_request_accepted_during_backoff:
  "onMessage True Plays startRequest STATE = Inr (Some (StartResponse True None), runningState) \<and>
   onError True fetchError runningState = Inr awaitingRetry \<and>
   timers awaitingRetry = [1000] \<and>
   testRunning awaitingRetry = False \<and>
   onMessage True Plays startRequest awaitingRetry =
     Inr (Some (StartResponse True None), secondRun) \<and>
   engineStarts awaitingRetry = 1 \<and>
   engineStarts secondRun = 2"
  by (simp add: onMessage_def startCloudflareSpeedTest_def speedTest_start_def onError_def Let_def
                categorizeError_fetchError startRequest_def runningState_def awaitingRetry_def
                secondRun_def STATE_def)

section \<open>Completion of a run and the history\<close>

lemma optProp_storageData:
  "optProp (storageData stored) ''results'' = (case stored of None \<Rightarrow> Undefined | Some v \<Rightarrow> v)"
  by (cases stored) (simp_all add: storageData_def)

lemma persistResult_invalid:
  "typeof (download result) \<noteq> ''number'' \<or> \<not> Number_isFinite (download result) \<Longrightarrow>
   persistResult now readError writeError result s = s"
  by (auto simp: persistResult_def)

lemma persistResult_readError: "persistResult now True writeError result s = s"
  by (simp add: persistResult_def Let_def)

lemma persistResult_writeError: "persistResult now readError True result s = s"
  by (simp add: persistResult_def Let_def)

lemma persistResult_stored:
  assumes "typeof (download result) = ''number''" and "Number_isFinite (download result)"
  shows "persistResult now False False result s =
           s\<lparr>storedResults := Some (Arr (take 2 (mkEntry now result #
                 validPrev (case storedResults s of None \<Rightarrow> Undefined | Some v \<Rightarrow> v))))\<rparr>"
  using assms by (simp add: persistResult_def Let_def optProp_storageData)

lemma onComplete_eq:
  "onComplete now now' readError writeError result s =
     persistResult now' readError writeError result
       (s\<lparr>testRunning := False, currentTest := None, retryCount := 0,
          lastResult := Obj [(''download'', nullish (download result) Null),
                             (''upload'', nullish (upload result) Null),
                             (''latency'', nullish (latency result) Null),
                             (''jitter'', nullish (jitter result) Null),
                             (''units'', Str ''Mbps''),
                             (''ts'', Num (Finite (of_nat now)))],
          sent := sent s @
                   [FAST_SPEED_DONE (Ok (nullish (download result) Null)
                                        (nullish (upload result) Null)
                                        (nullish (latency result) Null)
                                        (nullish (jitter result) Null))]\<rparr>)"
  by (simp add: onComplete_def Let_def)

lemma isValidEntry_mkEntry:
  "typeof (download result) = ''number'' \<Longrightarrow> Number_isFinite (download result) \<Longrightarrow>
   isValidEntry (mkEntry now result)"
  by (simp add: isValidEntry_def mkEntry_def)

text \<open>
  C5. After a successful persistence (a valid result, the read and the write without
  error), by \<^verbatim>\<open>persistResult\<close> alone or at the end of \<^verbatim>\<open>onComplete\<close>, the stored
  history is an array of at most 2 valid entries whose first is the new entry; and when
  the history held two valid entries \<open>a\<close> (newer) and \<open>b\<close> (older), it now holds the
  new entry and \<open>a\<close>: \<open>b\<close> is dropped.
\<close>

theorem history_cap:
  assumes "typeof (download result) = ''number''" and "Number_isFinite (download result)"
  shows "\<exists>next. storedResults (persistResult now False False result s) = Some (Arr next) \<and>
           storedResults (onComplete now0 now False False result s) = Some (Arr next) \<and>
           length next \<le> 2 \<and>
           next \<noteq> [] \<and> hd next = mkEntry now result \<and>
           (\<forall>item \<in> set next. isValidEntry item) \<and>
           (\<forall>a b. storedResults s = Some (Arr [a, b]) \<and> isValidEntry a \<and> isValidEntry b \<longrightarrow>
                  next = [mkEntry now result, a])"
proof -
  define prev where "prev = validPrev (case storedResults s of None \<Rightarrow> Undefined | Some v \<Rightarrow> v)"
  define nxt where "nxt = take 2 (mkEntry now result # prev)"
  have p: "storedResults (persistResult now False False result s) = Some (Arr nxt)"
    unfolding persistResult_stored [OF assms] by (simp add: nxt_def prev_def)
  have c: "storedResults (onComplete now0 now False False result s) = Some (Arr nxt)"
    unfolding onComplete_eq persistResult_stored [OF assms]
    by (simp add: nxt_def prev_def)
  have v: "\<forall>item \<in> set prev. isValidEntry item"
    using validPrev_valid unfolding prev_def by blast
  have n: "nxt = mkEntry now result # take 1 prev"
    by (simp add: nxt_def numeral_2_eq_2)
  have i: "isValidEntry (mkEntry now result)"
    by (rule isValidEntry_mkEntry [OF assms])
  have a: "\<forall>item \<in> set nxt. isValidEntry item"
  proof
    fix item assume "item \<in> set nxt"
    then have "item = mkEntry now result \<or> item \<in> set (take 1 prev)"
      unfolding n by simp
    then show "isValidEntry item"
      using i v by (blast dest: in_set_takeD)
  qed
  have b: "\<forall>a b. storedResults s = Some (Arr [a, b]) \<and> isValidEntry a \<and> isValidEntry b \<longrightarrow>
                  nxt = [mkEntry now result, a]"
    unfolding n prev_def by (simp add: validPrev_Arr)
  have l: "length nxt \<le> 2" by (simp add: nxt_def)
  have e: "nxt \<noteq> []" "hd nxt = mkEntry now result" unfolding n by simp_all
  show ?thesis
    by (intro exI [of _ nxt] conjI p c l e a b)
qed

theorem history_cap_witness:
  "storedResults (persistResult 1700000000500 False False sampleResult
      (STATE\<lparr>storedResults := Some (Arr [olderEntry, oldestEntry])\<rparr>)) =
     Some (Arr [mkEntry 1700000000500 sampleResult, olderEntry]) \<and>
   isValidEntry olderEntry \<and> isValidEntry oldestEntry \<and>
   storedResults (persistResult 1700000000500 False False sampleResult STATE) =
     Some (Arr [mkEntry 1700000000500 sampleResult])"
proof -
  have d: "typeof (download sampleResult) = ''number''" "Number_isFinite (download sampleResult)"
    by (simp_all add: sampleResult_def)
  have v: "isValidEntry olderEntry" "isValidEntry oldestEntry"
    by (simp_all add: isValidEntry_def olderEntry_def oldestEntry_def)
  have e: "validPrev Undefined = []" by (simp add: validPrev_def)
  show ?thesis
    using history_cap [OF d, of 1700000000500
            "STATE\<lparr>storedResults := Some (Arr [olderEntry, oldestEntry])\<rparr>"] v
          persistResult_stored [OF d, of 1700000000500 STATE] e
    by (auto simp: STATE_def)
qed

text \<open>
  C7. When the result of a completed run has a \<^verbatim>\<open>download\<close> that is no finite number
  (\<^verbatim>\<open>NaN\<close>, an infinity, \<^verbatim>\<open>null\<close>, any value that is no number), the stored history
  is as before, whatever the storage would have answered; the one message sent is the
  \<^verbatim>\<open>FAST_SPEED_DONE\<close> with \<^verbatim>\<open>ok: true\<close>, so no \<^verbatim>\<open>ok: false\<close> is sent; and no
  retry is scheduled.
\<close>

theorem invalid_result_not_persisted:
  assumes "typeof (download result) \<noteq> ''number'' \<or> \<not> Number_isFinite (download result)"
  shows "storedResults (onComplete now now' readError writeError result s) = storedResults s \<and>
         sent (onComplete now now' readError writeError result s) =
           sent s @ [FAST_SPEED_DONE (Ok (nullish (download result) Null)
                                        (nullish (upload result) Null)
                                        (nullish (latency result) Null)
                                        (nullish (jitter result) Null))] \<and>
         (\<forall>m \<in> set (drop (length (sent s))
                       (sent (onComplete now now' readError writeError result s))).
            \<forall>reason text. m \<noteq> FAST_SPEED_DONE (Failed reason text)) \<and>
         timers (onComplete now now' readError writeError result s) = timers s"
  unfolding onComplete_eq persistResult_invalid [OF assms] by simp

theorem invalid_result_not_persisted_witness:
  "storedResults (onComplete 5 6 False False (sampleResult\<lparr>download := Num NaN\<rparr>)
      (runningState\<lparr>storedResults := Some (Arr [olderEntry])\<rparr>)) = Some (Arr [olderEntry]) \<and>
   sent (onComplete 5 6 False False (sampleResult\<lparr>download := Num NaN\<rparr>)
      (runningState\<lparr>storedResults := Some (Arr [olderEntry])\<rparr>)) =
     [FAST_SPEED_STATUS Starting,
      FAST_SPEED_DONE (Ok (Num NaN) (Num (Finite 12)) Null Null)]"
proof -
  have i: "typeof (download (sampleResult\<lparr>download := Num NaN\<rparr>)) \<noteq> ''number'' \<or>
           \<not> Number_isFinite (download (sampleResult\<lparr>download := Num NaN\<rparr>))"
    by simp
  show ?thesis
    using invalid_result_not_persisted [OF i, of 5 6 False False
            "runningState\<lparr>storedResults := Some (Arr [olderEntry])\<rparr>"]
    by (simp add: sampleResult_def runningState_def STATE_def nullish_def)
qed

text \<open>
  C8, as the code has it. When the read of the history fails, \<^verbatim>\<open>persistResult\<close>
  returns at once: nothing is thrown and nothing is written, so the stored history is
  as before and the new entry is not in it. The run completes all the same: the state
  is idle, the count is 0 and the \<^verbatim>\<open>FAST_SPEED_DONE\<close> with \<^verbatim>\<open>ok: true\<close> is sent.
\<close>

theorem read_error_abandons_persistence:
  "persistResult now True writeError result s = s \<and>
   storedResults (onComplete now0 now True writeError result s) = storedResults s \<and>
   \<not> testRunning (onComplete now0 now True writeError result s) \<and>
   retryCount (onComplete now0 now True writeError result s) = 0 \<and>
   sent (onComplete now0 now True writeError result s) =
     sent s @ [FAST_SPEED_DONE (Ok (nullish (download result) Null)
                                  (nullish (upload result) Null)
                                  (nullish (latency result) Null)
                                  (nullish (jitter result) Null))]"
  unfolding onComplete_eq persistResult_readError by simp

theorem read_error_abandons_persistence_witness:
  "persistResult 1700000000500 True False sampleResult
      (STATE\<lparr>storedResults := Some (Arr [olderEntry])\<rparr>) =
     STATE\<lparr>storedResults := Some (Arr [olderEntry])\<rparr> \<and>
   storedResults (onComplete 1700000000400 1700000000500 True False sampleResult
      (runningState\<lparr>storedResults := Some (Arr [olderEntry])\<rparr>)) = Some (Arr [olderEntry])"
  using read_error_abandons_persistence [of 1700000000500 False sampleResult
          "STATE\<lparr>storedResults := Some (Arr [olderEntry])\<rparr>" 1700000000400]
        read_error_abandons_persistence [of 1700000000500 False sampleResult
          "runningState\<lparr>storedResults := Some (Arr [olderEntry])\<rparr>" 1700000000400]
  by simp

text \<open>
  C8 as stated fails: with a failed read the store keeps what it held (here nothing),
  whereas going on with an empty history would have stored the new entry, as the same
  call does when the read succeeds on an empty store.
\<close>

theorem read_error_is_not_empty_history:
  "storedResults (persistResult 1700000000500 True False sampleResult STATE) = None \<and>
   storedResults (persistResult 1700000000500 False False sampleResult STATE) =
     Some (Arr [mkEntry 1700000000500 sampleResult])"
  by (simp add: persistResult_def Let_def sampleResult_def STATE_def validPrev_def storageData_def)

text \<open>
  C10. When the engine's summary has no download, or the download 0, the wrapper's
  final results carry \<^verbatim>\<open>download = null\<close>; \<^verbatim>\<open>onComplete\<close> then reports \<^verbatim>\<open>null\<close>
  in its \<^verbatim>\<open>FAST_SPEED_DONE\<close> message, and the write-side check of
  \<^verbatim>\<open>persistResult\<close> rejects the result: the stored history is as before.
\<close>

theorem zero_download_reported_null:
  assumes "summary_download summary = None \<or> summary_download summary = Some (Finite 0)"
  shows "download (onFinish_finalResults summary now0) = Null \<and>
         storedResults (onFinish summary now0 now now' readError writeError s) = storedResults s \<and>
         sent (onFinish summary now0 now now' readError writeError s) =
           sent s @ [FAST_SPEED_DONE (Ok Null
                       (toMbps (summary_upload summary))
                       (orNull (summary_latency summary))
                       (orNull (summary_jitter summary)))]"
proof -
  have d: "download (onFinish_finalResults summary now0) = Null"
    using assms by (auto simp: onFinish_finalResults_def)
  have nn: "nullish (toMbps x) Null = toMbps x" "nullish (orNull x) Null = orNull x" for x
    by (cases x; simp add: nullish_def)+
  have n0: "nullish Null Null = Null" by (simp add: nullish_def)
  have i: "typeof (download (onFinish_finalResults summary now0)) \<noteq> ''number'' \<or>
           \<not> Number_isFinite (download (onFinish_finalResults summary now0))"
    by (simp add: d)
  have f: "upload (onFinish_finalResults summary now0) = toMbps (summary_upload summary)"
      "latency (onFinish_finalResults summary now0) = orNull (summary_latency summary)"
      "jitter (onFinish_finalResults summary now0) = orNull (summary_jitter summary)"
    by (simp_all add: onFinish_finalResults_def)
  show ?thesis
    unfolding onFinish_def onComplete_eq persistResult_invalid [OF i]
    by (simp add: d f nn n0)
qed

theorem zero_download_reported_null_witness:
  "download (onFinish_finalResults
      \<lparr>summary_download = Some (Finite 0), summary_upload = Some (Finite 8000000),
       summary_latency = Some (Finite 20), summary_jitter = None,
       summary_downLoadedLatency = None, summary_upLoadedLatency = None\<rparr> 7) = Null \<and>
   storedResults (onFinish
      \<lparr>summary_download = Some (Finite 0), summary_upload = Some (Finite 8000000),
       summary_latency = Some (Finite 20), summary_jitter = None,
       summary_downLoadedLatency = None, summary_upLoadedLatency = None\<rparr> 7 8 9 False False
      (runningState\<lparr>storedResults := Some (Arr [olderEntry])\<rparr>)) = Some (Arr [olderEntry]) \<and>
   sent (onFinish
      \<lparr>summary_download = Some (Finite 0), summary_upload = Some (Finite 8000000),
       summary_latency = Some (Finite 20), summary_jitter = None,
       summary_downLoadedLatency = None, summary_upLoadedLatency = None\<rparr> 7 8 9 False False
      (runningState\<lparr>storedResults := Some (Arr [olderEntry])\<rparr>)) =
     [FAST_SPEED_STATUS Starting, FAST_SPEED_DONE (Ok Null (Num (Finite 8)) (Num (Finite 20)) Null)]"
proof -
  have z: "summary_download
             \<lparr>summary_download = Some (Finite 0), summary_upload = Some (Finite 8000000),
              summary_latency = Some (Finite 20), summary_jitter = None,
              summary_downLoadedLatency = None, summary_upLoadedLatency = None\<rparr> = None \<or>
           summary_download
             \<lparr>summary_download = Some (Finite 0), summary_upload = Some (Finite 8000000),
              summary_latency = Some (Finite 20), summary_jitter = None,
              summary_downLoadedLatency = None, summary_upLoadedLatency = None\<rparr> =
             Some (Finite 0)"
    by simp
  show ?thesis
    using zero_download_reported_null [OF z, of 7 8 9 False False
            "runningState\<lparr>storedResults := Some (Arr [olderEntry])\<rparr>"]
    by (simp add: runningState_def STATE_def)
qed

section \<open>A complete run\<close>

text \<open>
  The run the specification describes: a start request, then network failures. The
  first three are retried after 1000, 2000 and 4000 milliseconds without any
  \<^verbatim>\<open>FAST_SPEED_DONE\<close>; the fourth ends the run with one failure message and the count 0.
\<close>

lemma four_network_failures:
  "onMessage True Plays startRequest STATE = Inr (Some (StartResponse True None), runningState) \<and>
   onError True fetchError runningState = Inr awaitingRetry \<and>
   timerFires 0 True Plays awaitingRetry =
     Inr (awaitingRetry\<lparr>testRunning := True, currentTest := Some 1, timers := [],
            sent := sent awaitingRetry @ [FAST_SPEED_STATUS Starting], engineStarts := 2\<rparr>) \<and>
   onError True fetchError
     (awaitingRetry\<lparr>testRunning := True, currentTest := Some 1, timers := [],
        sent := sent awaitingRetry @ [FAST_SPEED_STATUS Starting], engineStarts := 2\<rparr>) =
     Inr (awaitingRetry\<lparr>retryCount := 2, timers := [2000], engineStarts := 2,
            sent := sent awaitingRetry @
              [FAST_SPEED_STATUS Starting, FAST_SPEED_STATUS (RetryingIn 2)]\<rparr>) \<and>
   onError True fetchError
     (STATE\<lparr>testRunning := True, currentTest := Some 2, retryCount := 2, engineStarts := 3\<rparr>) =
     Inr (STATE\<lparr>retryCount := 3, timers := [4000], engineStarts := 3,
            sent := [FAST_SPEED_STATUS (RetryingIn 4)]\<rparr>) \<and>
   onError True fetchError
     (STATE\<lparr>testRunning := True, currentTest := Some 3, retryCount := 3, engineStarts := 4\<rparr>) =
     Inr (STATE\<lparr>retryCount := 0, engineStarts := 4,
            sent := [FAST_SPEED_DONE (Failed ''network''
                       ''Network connection issue. Please check your internet connection.'')]\<rparr>)"
  by (simp add: onMessage_def timerFires_def startCloudflareSpeedTest_def speedTest_start_def
                onError_def Let_def categorizeError_fetchError startRequest_def runningState_def
                awaitingRetry_def STATE_def)

end
